theory Spec2Isabelle
  imports Main
begin

section \<open>Version resolution of \<^verbatim>\<open>try-bump.ts\<close>\<close>

text \<open>
  The module computes the next version of a project from its last tagged version, the
  commits since that tag and the state of its dependencies. Everything it calls outside
  the file (tag lookup, git, tag formatting, the conventional-commits parser, the bump
  recommendation and the \<^verbatim>\<open>semver\<close> package) is a field of the record \<open>env\<close>:
  the functions below are the functions of the file, over any behaviour of those
  collaborators.

  Strings stay strings: a release type is the JavaScript string the code compares with
  \<^verbatim>\<open>'prerelease'\<close> and prefixes with \<^verbatim>\<open>pre\<close>; an optional
  parameter (\<^verbatim>\<open>undefined\<close>) or a \<^verbatim>\<open>null\<close> is \<open>None\<close>.

  Names are the source's, without the leading underscore of \<^verbatim>\<open>_semverBump\<close>,
  \<^verbatim>\<open>_manualBump\<close>, \<^verbatim>\<open>_getDependencyVersions\<close>, \<^verbatim>\<open>_isNewVersion\<close> and
  \<^verbatim>\<open>_isInitialVersion\<close>, and with \<open>_S\<close> for the \<^verbatim>\<open>$\<close> that ends the name of an
  observable.
\<close>

subsection \<open>Data model\<close>

text \<open>An error raised by a collaborator (an errored observable, a rejected promise).\<close>

datatype error = CollaboratorError string

text \<open>
  Every observable of the file emits one value or fails (the collaborators' observables
  are taken to do so): its outcome is \<open>error + 'a\<close>. Where several are joined and more
  than one fails, rxjs reports the failure that arrives first in time; the operators below
  report the first in the order of the source. No property proved here depends on which
  failure is reported.
\<close>

type_synonym 'a observable = "error + 'a"

text \<open>
  \<^verbatim>\<open>Version\<close> (imported from \<^verbatim>\<open>../version\<close>): the objects the file builds are
  \<^verbatim>\<open>{ type, version, dependencyName }\<close>. The fields are prefixed because
  \<^verbatim>\<open>version\<close> is a field of \<^verbatim>\<open>NewVersion\<close> too.
\<close>

record Version =
  v_type :: string
  v_version :: "string option"
  v_dependencyName :: "string option"

record NewVersion =
  version :: string
  previousVersion :: string
  dependencyUpdates :: "Version list"

text \<open>\<^verbatim>\<open>DependencyRoot\<close> (imported from \<^verbatim>\<open>./get-project-dependencies\<close>).\<close>

record DependencyRoot =
  path :: string
  name :: string

text \<open>
  \<^verbatim>\<open>PresetOpt\<close> (imported from \<^verbatim>\<open>../schema\<close>): a preset name, or a configuration
  object with an optional \<^verbatim>\<open>name\<close> and further entries.
\<close>

datatype PresetOpt =
  PresetString string
| PresetObject "string option" "(string \<times> string) list"

type_synonym CommitParserOptions = "(string \<times> string) list"

text \<open>
  What \<^verbatim>\<open>semver.parse\<close> returns; an identifier of the prerelease is a number or a
  string.
\<close>

datatype prerelease_id = Numeric nat | Alphanumeric string

record SemVer =
  major :: nat
  minor :: nat
  patch :: nat
  prerelease :: "prerelease_id list"

text \<open>The argument of \<^verbatim>\<open>_logStep\<close>: step, level, message, projectName.\<close>

datatype LogStep = LogStep string string string string

text \<open>
  The collaborators, in the order of the file's imports. Arguments passed as one object
  in the source are passed in the order the source writes them.
  \<^item> \<open>getLastVersion tagPrefix preid releaseType\<close>
  \<^item> \<open>getCommits projectRoot since\<close>
  \<^item> \<open>formatTag tagPrefix version\<close>
  \<^item> \<open>formatTagPrefix versionTagPrefix projectName syncVersions\<close>
  \<^item> \<open>parseConventionalCommitsSync commit options\<close>, the \<^verbatim>\<open>type\<close> of the parsed commit
  \<^item> \<open>conventionalRecommendedBump path tagPrefix skipUnstable preset config\<close>, the
    \<^verbatim>\<open>releaseType\<close> of the recommendation
  \<^item> \<open>semver_inc version release identifier\<close>
  \<^item> \<open>semver_parse version\<close>
\<close>

record env =
  getLastVersion :: "string \<Rightarrow> string option \<Rightarrow> string option \<Rightarrow> string observable"
  getFirstCommitRef :: "string observable"
  getCommits :: "string \<Rightarrow> string \<Rightarrow> string list observable"
  formatTag :: "string \<Rightarrow> string \<Rightarrow> string"
  formatTagPrefix :: "string option \<Rightarrow> string \<Rightarrow> bool \<Rightarrow> string"
  parseConventionalCommitsSync :: "string \<Rightarrow> CommitParserOptions \<Rightarrow> string option"
  conventionalRecommendedBump ::
    "string \<Rightarrow> string \<Rightarrow> bool \<Rightarrow> string \<Rightarrow> PresetOpt option \<Rightarrow> string option observable"
  semver_inc :: "string \<Rightarrow> string \<Rightarrow> string option \<Rightarrow> string option"
  semver_parse :: "string \<Rightarrow> SemVer option"

subsection \<open>The operators of rxjs the file uses, on one-value observables\<close>

definition switchMap :: "'a observable \<Rightarrow> ('a \<Rightarrow> 'b observable) \<Rightarrow> 'b observable" where
  "switchMap source project = (case source of Inl e \<Rightarrow> Inl e | Inr x \<Rightarrow> project x)"

definition map_op :: "'a observable \<Rightarrow> ('a \<Rightarrow> 'b) \<Rightarrow> 'b observable" where
  "map_op source f = (case source of Inl e \<Rightarrow> Inl e | Inr x \<Rightarrow> Inr (f x))"

definition catchError :: "'a observable \<Rightarrow> (error \<Rightarrow> 'a observable) \<Rightarrow> 'a observable" where
  "catchError source selector = (case source of Inl e \<Rightarrow> selector e | Inr x \<Rightarrow> Inr x)"

definition forkJoin2 :: "'a observable \<Rightarrow> 'b observable \<Rightarrow> ('a \<times> 'b) observable" where
  "forkJoin2 a b = switchMap a (\<lambda>x. switchMap b (\<lambda>y. Inr (x, y)))"

definition forkJoin3 ::
  "'a observable \<Rightarrow> 'b observable \<Rightarrow> 'c observable \<Rightarrow> ('a \<times> 'b \<times> 'c) observable" where
  "forkJoin3 a b c = switchMap a (\<lambda>x. switchMap b (\<lambda>y. switchMap c (\<lambda>z. Inr (x, y, z))))"

text \<open>\<^verbatim>\<open>forkJoin\<close> of an array: every outcome in the order of the array, or an error.\<close>

fun forkJoin :: "'a observable list \<Rightarrow> 'a list observable" where
  "forkJoin [] = Inr []"
| "forkJoin (source # sources) =
     switchMap source (\<lambda>x. switchMap (forkJoin sources) (\<lambda>xs. Inr (x # xs)))"

text \<open>
  \<^verbatim>\<open>forkJoin(sources).pipe(defaultIfEmpty(d))\<close>: \<^verbatim>\<open>forkJoin\<close> of an empty array
  completes without a value, and \<^verbatim>\<open>defaultIfEmpty\<close> emits \<open>d\<close> then.
\<close>

definition forkJoin_defaultIfEmpty :: "'a observable list \<Rightarrow> 'a list \<Rightarrow> 'a list observable" where
  "forkJoin_defaultIfEmpty sources d = (if sources = [] then Inr d else forkJoin sources)"

subsection \<open>JavaScript truthiness of the optional strings and flags\<close>

definition truthy :: "string option \<Rightarrow> bool" where
  "truthy s = (case s of None \<Rightarrow> False | Some x \<Rightarrow> x \<noteq> [])"

definition truthy_flag :: "bool option \<Rightarrow> bool" where
  "truthy_flag b = (case b of None \<Rightarrow> False | Some x \<Rightarrow> x)"

subsection \<open>\<^verbatim>\<open>getProjectVersion\<close>\<close>

definition initialVersion :: string where
  "initialVersion = ''0.0.0''"

definition isInitialVersion :: "string \<Rightarrow> bool" where
  "isInitialVersion lastVersion = (lastVersion = initialVersion)"

definition isNewVersion :: "Version \<Rightarrow> bool" where
  "isNewVersion v = (v_version v \<noteq> None \<and> v_version v \<noteq> Some initialVersion)"

definition warning_message :: "string \<Rightarrow> string" where
  "warning_message tagPrefix =
     ''No previous version tag found, fallback to version 0.0.0.'' @ [CHR 0x0A] @
     ''        New version will be calculated based on all changes since first commit.'' @ [CHR 0x0A] @
     ''        If your project is already versioned, please tag the latest release commit with '' @
     tagPrefix @ ''x.y.z and run this command again.''"

text \<open>
  The three observables \<^verbatim>\<open>getProjectVersion\<close> returns, each as its outcome, and what
  the shared last-version lookup logs when it runs (once: \<^verbatim>\<open>shareReplay\<close> keeps its
  outcome for every subscriber).
\<close>

record ProjectVersion =
  lastVersion_S :: "string observable"
  commits_S :: "string list observable"
  lastVersionGitRef_S :: "string observable"
  logged :: "LogStep list"

definition getProjectVersion ::
  "env \<Rightarrow> string \<Rightarrow> string \<Rightarrow> string option \<Rightarrow> string option \<Rightarrow> string \<Rightarrow> string option
    \<Rightarrow> ProjectVersion" where
  "getProjectVersion env tagPrefix projectRoot releaseType since projectName preid =
    (let lookup = getLastVersion env tagPrefix preid releaseType;
         lastVersion_obs = catchError lookup (\<lambda>_. Inr initialVersion);
         lastVersionGitRef_obs =
           switchMap lastVersion_obs (\<lambda>lastVersion.
             if isInitialVersion lastVersion then getFirstCommitRef env
             else Inr (formatTag env tagPrefix lastVersion));
         commits_obs =
           switchMap lastVersionGitRef_obs (\<lambda>lastVersionGitRef.
             getCommits env projectRoot
               (case since of Some s \<Rightarrow> s | None \<Rightarrow> lastVersionGitRef))
     in \<lparr> lastVersion_S = lastVersion_obs,
          commits_S = commits_obs,
          lastVersionGitRef_S = lastVersionGitRef_obs,
          logged = (case lookup of
                      Inl _ \<Rightarrow> [LogStep ''warning'' ''warn'' (warning_message tagPrefix) projectName]
                    | Inr _ \<Rightarrow> []) \<rparr>)"

subsection \<open>The bump calculators\<close>

text \<open>
  \<^verbatim>\<open>_semverBump\<close>. The recommendation is asked with \<^verbatim>\<open>skipUnstable ?? false\<close> and
  with the preset's name, or \<^verbatim>\<open>preset.name ?? 'conventionalcommits'\<close> and the object
  as \<^verbatim>\<open>config\<close>.
\<close>

definition preset_name :: "PresetOpt \<Rightarrow> string" where
  "preset_name p =
     (case p of
        PresetString s \<Rightarrow> s
      | PresetObject n _ \<Rightarrow> (case n of Some s \<Rightarrow> s | None \<Rightarrow> ''conventionalcommits''))"

definition preset_config :: "PresetOpt \<Rightarrow> PresetOpt option" where
  "preset_config p = (case p of PresetString _ \<Rightarrow> None | PresetObject _ _ \<Rightarrow> Some p)"

definition semverBump ::
  "env \<Rightarrow> string \<Rightarrow> PresetOpt \<Rightarrow> string \<Rightarrow> string \<Rightarrow> string option \<Rightarrow> string option
    \<Rightarrow> bool option \<Rightarrow> string option observable" where
  "semverBump env since preset projectRoot tagPrefix releaseType preid skipUnstable =
    switchMap
      (conventionalRecommendedBump env projectRoot tagPrefix
         (case skipUnstable of None \<Rightarrow> False | Some b \<Rightarrow> b)
         (preset_name preset) (preset_config preset))
      (\<lambda>recommended.
         let recommendedReleaseType =
               (if truthy recommended \<and> releaseType = Some ''prerelease''
                then (if (case semver_parse env since of
                            None \<Rightarrow> False
                          | Some parsed \<Rightarrow> length (prerelease parsed) = 0)
                      then map_option (\<lambda>r. ''pre'' @ r) recommended
                      else releaseType)
                else recommended)
         in Inr (case recommendedReleaseType of
                   None \<Rightarrow> None
                 | Some r \<Rightarrow> if r \<noteq> [] then semver_inc env since r preid else None))"

text \<open>
  \<^verbatim>\<open>_manualBump\<close>: the identifier is passed to \<^verbatim>\<open>semver.inc\<close> only when
  \<^verbatim>\<open>preid\<close> is truthy.
\<close>

definition manualBump :: "env \<Rightarrow> string \<Rightarrow> string \<Rightarrow> string option \<Rightarrow> string option observable" where
  "manualBump env since releaseType preid =
     Inr (semver_inc env since releaseType (if truthy preid then preid else None))"

subsection \<open>The commit classifier\<close>

definition shouldCommitBeCalculated ::
  "env \<Rightarrow> string \<Rightarrow> CommitParserOptions option \<Rightarrow> string list \<Rightarrow> bool" where
  "shouldCommitBeCalculated env commit commitParserOptions skipCommitTypes =
    (let type = parseConventionalCommitsSync env commit
                  (case commitParserOptions of Some options \<Rightarrow> options | None \<Rightarrow> []);
         shouldSkip = list_ex (\<lambda>typeToSkip. Some typeToSkip = type) skipCommitTypes
     in \<not> shouldSkip)"

text \<open>
  \<^verbatim>\<open>commits.filter((commit) => shouldCommitBeCalculated({ commit, ... }))\<close>, written
  in \<^verbatim>\<open>tryBump\<close> and in \<^verbatim>\<open>_getDependencyVersions\<close>.
\<close>

definition filteredCommits ::
  "env \<Rightarrow> string list \<Rightarrow> CommitParserOptions option \<Rightarrow> string list \<Rightarrow> string list" where
  "filteredCommits env commits commitParserOptions skipCommitTypes =
     filter (\<lambda>commit. shouldCommitBeCalculated env commit commitParserOptions skipCommitTypes)
       commits"

subsection \<open>\<^verbatim>\<open>_getDependencyVersions\<close>\<close>

text \<open>
  The call of \<^verbatim>\<open>getProjectVersion\<close> for one dependency root (lines 340 to 353): the
  tag prefix is the dependency's, \<^verbatim>\<open>since\<close> is the range reference of the primary
  project, and \<^verbatim>\<open>projectName\<close> is the primary project's.
\<close>

definition dependencyWindow ::
  "env \<Rightarrow> string option \<Rightarrow> string option \<Rightarrow> bool \<Rightarrow> string \<Rightarrow> string \<Rightarrow> string option
    \<Rightarrow> DependencyRoot \<Rightarrow> ProjectVersion" where
  "dependencyWindow env releaseType versionTagPrefix syncVersions lastVersionGitRef projectName
     preid root =
     getProjectVersion env (formatTagPrefix env versionTagPrefix (name root) syncVersions)
       (path root) releaseType (Some lastVersionGitRef) projectName preid"

text \<open>
  The function \<^verbatim>\<open>_getDependencyVersions\<close> maps over \<^verbatim>\<open>dependencyRoots\<close>, for one
  root. \<^verbatim>\<open>_semverBump\<close> is called there without \<^verbatim>\<open>releaseType\<close> and without
  \<^verbatim>\<open>preid\<close>.
\<close>

definition dependencyVersion ::
  "env \<Rightarrow> CommitParserOptions option \<Rightarrow> PresetOpt \<Rightarrow> string option \<Rightarrow> string option \<Rightarrow> bool
    \<Rightarrow> string \<Rightarrow> string list \<Rightarrow> string \<Rightarrow> string option \<Rightarrow> bool option \<Rightarrow> DependencyRoot
    \<Rightarrow> Version observable" where
  "dependencyVersion env commitParserOptions preset releaseType versionTagPrefix syncVersions
     lastVersionGitRef skipCommitTypes projectName preid skipUnstable root =
    (let projectRoot = path root;
         dependencyName = name root;
         tagPrefix = formatTagPrefix env versionTagPrefix dependencyName syncVersions;
         pv = dependencyWindow env releaseType versionTagPrefix syncVersions lastVersionGitRef
                projectName preid root
     in switchMap (forkJoin2 (lastVersion_S pv) (commits_S pv))
          (\<lambda>(dependencyLastVersion, commits).
             if length (filteredCommits env commits commitParserOptions skipCommitTypes) = 0
             then Inr \<lparr> v_type = ''dependency'', v_version = None,
                        v_dependencyName = Some dependencyName \<rparr>
             else if isInitialVersion dependencyLastVersion
             then map_op
                    (semverBump env dependencyLastVersion preset projectRoot tagPrefix
                       None None skipUnstable)
                    (\<lambda>version. \<lparr> v_type = ''dependency'', v_version = version,
                                  v_dependencyName = Some dependencyName \<rparr>)
             else Inr \<lparr> v_type = ''dependency'', v_version = Some dependencyLastVersion,
                        v_dependencyName = Some dependencyName \<rparr>))"

definition getDependencyVersions ::
  "env \<Rightarrow> CommitParserOptions option \<Rightarrow> PresetOpt \<Rightarrow> DependencyRoot list \<Rightarrow> string option
    \<Rightarrow> string option \<Rightarrow> bool \<Rightarrow> string \<Rightarrow> string list \<Rightarrow> string \<Rightarrow> string option
    \<Rightarrow> bool option \<Rightarrow> Version list observable" where
  "getDependencyVersions env commitParserOptions preset dependencyRoots releaseType
     versionTagPrefix syncVersions lastVersionGitRef skipCommitTypes projectName preid
     skipUnstable =
    forkJoin_defaultIfEmpty
      (map (dependencyVersion env commitParserOptions preset releaseType versionTagPrefix
              syncVersions lastVersionGitRef skipCommitTypes projectName preid skipUnstable)
         dependencyRoots)
      []"

subsection \<open>\<^verbatim>\<open>tryBump\<close>\<close>

text \<open>
  The parameter object of \<^verbatim>\<open>tryBump\<close>. \<^verbatim>\<open>dependencyRoots\<close> defaults to the empty
  array.
\<close>

record TryBumpOptions =
  commitParserOptions :: "CommitParserOptions option"
  preset :: PresetOpt
  projectRoot :: string
  tagPrefix :: string
  dependencyRoots :: "DependencyRoot list option"
  releaseType :: "string option"
  preid :: "string option"
  skipUnstable :: "bool option"
  versionTagPrefix :: "string option"
  syncVersions :: bool
  allowEmptyRelease :: "bool option"
  skipCommitTypes :: "string list"
  projectName :: string

text \<open>\<^verbatim>\<open>a || b\<close> on strings.\<close>

definition or_else :: "string option \<Rightarrow> string \<Rightarrow> string" where
  "or_else a b = (case a of None \<Rightarrow> b | Some x \<Rightarrow> if x \<noteq> [] then x else b)"

text \<open>
  The three calls \<^verbatim>\<open>tryBump\<close> makes with its own parameters: \<^verbatim>\<open>getProjectVersion\<close>
  (lines 128 to 134, no \<^verbatim>\<open>since\<close>), \<^verbatim>\<open>_semverBump\<close> (lines 156 to 164) and
  \<^verbatim>\<open>_getDependencyVersions\<close> (lines 166 to 177, no \<^verbatim>\<open>skipUnstable\<close>).
\<close>

definition primaryVersion :: "env \<Rightarrow> TryBumpOptions \<Rightarrow> ProjectVersion" where
  "primaryVersion env opts =
     getProjectVersion env (tagPrefix opts) (projectRoot opts) (releaseType opts) None
       (projectName opts) (preid opts)"

definition projectBump :: "env \<Rightarrow> TryBumpOptions \<Rightarrow> string \<Rightarrow> Version observable" where
  "projectBump env opts lastVersion =
     map_op
       (semverBump env lastVersion (preset opts) (projectRoot opts) (tagPrefix opts)
          (releaseType opts) (preid opts) (skipUnstable opts))
       (\<lambda>v. \<lparr> v_type = ''project'', v_version = v, v_dependencyName = None \<rparr>)"

definition dependencyVersions :: "env \<Rightarrow> TryBumpOptions \<Rightarrow> string \<Rightarrow> Version list observable" where
  "dependencyVersions env opts lastVersionGitRef =
     getDependencyVersions env (commitParserOptions opts) (preset opts)
       (case dependencyRoots opts of Some roots \<Rightarrow> roots | None \<Rightarrow> [])
       (releaseType opts) (versionTagPrefix opts) (syncVersions opts) lastVersionGitRef
       (skipCommitTypes opts) (projectName opts) (preid opts) None"

text \<open>
  The branch of \<^verbatim>\<open>tryBump\<close> taken when \<^verbatim>\<open>releaseType\<close> is truthy and not
  \<^verbatim>\<open>'prerelease'\<close> (lines 139 to 153); \<open>rt\<close> is that release type.
\<close>

definition tryBump_manual ::
  "env \<Rightarrow> TryBumpOptions \<Rightarrow> string \<Rightarrow> string \<Rightarrow> NewVersion option observable" where
  "tryBump_manual env opts lastVersion rt =
     map_op (manualBump env lastVersion rt (preid opts))
       (\<lambda>v. case v of
               None \<Rightarrow> None
             | Some x \<Rightarrow>
                 if x \<noteq> []
                 then Some \<lparr> version = x, previousVersion = lastVersion, dependencyUpdates = [] \<rparr>
                 else None)"

text \<open>The rest of the callback (lines 156 to 226).\<close>

definition tryBump_automatic ::
  "env \<Rightarrow> TryBumpOptions \<Rightarrow> string \<Rightarrow> string list \<Rightarrow> string \<Rightarrow> NewVersion option observable" where
  "tryBump_automatic env opts lastVersion commits lastVersionGitRef =
     switchMap (forkJoin2 (projectBump env opts lastVersion)
                  (dependencyVersions env opts lastVersionGitRef))
       (\<lambda>(projectVersion, dependencyVersions).
          let updates = filter isNewVersion dependencyVersions;
              newVersion = \<lparr> version = or_else (v_version projectVersion) lastVersion,
                             previousVersion = lastVersion,
                             dependencyUpdates = updates \<rparr>
          in if v_version projectVersion = None \<and> length updates \<noteq> 0
             then map_op (manualBump env lastVersion ''patch'' (preid opts))
                    (\<lambda>v. case v of
                            None \<Rightarrow> None
                          | Some x \<Rightarrow>
                              if x \<noteq> []
                              then Some (newVersion \<lparr> version := or_else v lastVersion,
                                                       previousVersion := lastVersion \<rparr>)
                              else None)
             else if \<not> (length updates \<noteq> 0)
                     \<and> \<not> (length (filteredCommits env commits (commitParserOptions opts)
                                     (skipCommitTypes opts)) \<noteq> 0)
                     \<and> \<not> truthy_flag (allowEmptyRelease opts)
                  then Inr None
                  else Inr (Some newVersion))"

definition tryBump :: "env \<Rightarrow> TryBumpOptions \<Rightarrow> NewVersion option observable" where
  "tryBump env opts =
    (let pv = primaryVersion env opts
     in switchMap (forkJoin3 (lastVersion_S pv) (commits_S pv) (lastVersionGitRef_S pv))
          (\<lambda>(lastVersion, commits, lastVersionGitRef).
             case releaseType opts of
               None \<Rightarrow> tryBump_automatic env opts lastVersion commits lastVersionGitRef
             | Some rt \<Rightarrow>
                 if rt \<noteq> [] \<and> rt \<noteq> ''prerelease''
                 then tryBump_manual env opts lastVersion rt
                 else tryBump_automatic env opts lastVersion commits lastVersionGitRef))"

subsection \<open>Precedence of semantic versions\<close>

text \<open>
  The order the data model's invariant speaks of, "standard semver ordering", is not
  computed by the file. It is defined here from the Semantic Versioning 2.0.0 document:
  a version is \<^verbatim>\<open>MAJOR.MINOR.PATCH\<close>, then \<^verbatim>\<open>-\<close> and dot-separated prerelease
  identifiers, then \<^verbatim>\<open>+\<close> and build metadata, which precedence ignores.
\<close>

definition is_digit :: "char \<Rightarrow> bool" where
  "is_digit c = (c \<in> set ''0123456789'')"

definition is_identifier_char :: "char \<Rightarrow> bool" where
  "is_identifier_char c =
     (is_digit c \<or> c \<in> set ''abcdefghijklmnopqrstuvwxyzABCDEFGHIJKLMNOPQRSTUVWXYZ-'')"

fun split_on :: "char \<Rightarrow> string \<Rightarrow> string list" where
  "split_on sep [] = [[]]"
| "split_on sep (c # cs) =
     (if c = sep then [] # split_on sep cs
      else (case split_on sep cs of [] \<Rightarrow> [[c]] | w # ws \<Rightarrow> (c # w) # ws))"

definition digits_value :: "string \<Rightarrow> nat" where
  "digits_value s = foldl (\<lambda>n c. 10 * n + (of_char c - 48)) 0 s"

text \<open>A numeric identifier: digits, without a leading zero.\<close>

definition is_numeric :: "string \<Rightarrow> bool" where
  "is_numeric s = (s \<noteq> [] \<and> list_all is_digit s \<and> (length s = 1 \<or> hd s \<noteq> CHR ''0''))"

definition parse_identifier :: "string \<Rightarrow> prerelease_id option" where
  "parse_identifier s =
     (if s = [] \<or> \<not> list_all is_identifier_char s then None
      else if list_all is_digit s
           then (if is_numeric s then Some (Numeric (digits_value s)) else None)
           else Some (Alphanumeric s))"

definition valid_build :: "string \<Rightarrow> bool" where
  "valid_build s =
     (case s of
        [] \<Rightarrow> True
      | _ # b \<Rightarrow> list_all (\<lambda>i. i \<noteq> [] \<and> list_all is_identifier_char i) (split_on CHR ''.'' b))"

definition parse_version :: "string \<Rightarrow> SemVer option" where
  "parse_version s =
    (let body = takeWhile (\<lambda>c. c \<noteq> CHR ''+'') s;
         build = dropWhile (\<lambda>c. c \<noteq> CHR ''+'') s;
         core = takeWhile (\<lambda>c. c \<noteq> CHR ''-'') body;
         pre = dropWhile (\<lambda>c. c \<noteq> CHR ''-'') body
     in case split_on CHR ''.'' core of
          [a, b, c] \<Rightarrow>
            if is_numeric a \<and> is_numeric b \<and> is_numeric c \<and> valid_build build
            then (case pre of
                    [] \<Rightarrow> Some \<lparr> major = digits_value a, minor = digits_value b,
                                 patch = digits_value c, prerelease = [] \<rparr>
                  | _ # ids \<Rightarrow>
                      (case those (map parse_identifier (split_on CHR ''.'' ids)) of
                         None \<Rightarrow> None
                       | Some ps \<Rightarrow> Some \<lparr> major = digits_value a, minor = digits_value b,
                                            patch = digits_value c, prerelease = ps \<rparr>))
            else None
        | _ \<Rightarrow> None)"

fun ascii_less :: "string \<Rightarrow> string \<Rightarrow> bool" where
  "ascii_less _ [] = False"
| "ascii_less [] (_ # _) = True"
| "ascii_less (x # xs) (y # ys) =
     ((of_char x :: nat) < of_char y \<or> (x = y \<and> ascii_less xs ys))"

fun identifier_less :: "prerelease_id \<Rightarrow> prerelease_id \<Rightarrow> bool" where
  "identifier_less (Numeric a) (Numeric b) = (a < b)"
| "identifier_less (Numeric _) (Alphanumeric _) = True"
| "identifier_less (Alphanumeric _) (Numeric _) = False"
| "identifier_less (Alphanumeric a) (Alphanumeric b) = ascii_less a b"

fun identifiers_less :: "prerelease_id list \<Rightarrow> prerelease_id list \<Rightarrow> bool" where
  "identifiers_less _ [] = False"
| "identifiers_less [] (_ # _) = True"
| "identifiers_less (x # xs) (y # ys) =
     (identifier_less x y \<or> (x = y \<and> identifiers_less xs ys))"

text \<open>A version with a prerelease precedes the same version without one.\<close>

definition prerelease_less :: "prerelease_id list \<Rightarrow> prerelease_id list \<Rightarrow> bool" where
  "prerelease_less p q =
     (if p = [] then False else if q = [] then True else identifiers_less p q)"

definition semver_less :: "SemVer \<Rightarrow> SemVer \<Rightarrow> bool" where
  "semver_less a b =
     (major a < major b
      \<or> (major a = major b
          \<and> (minor a < minor b
              \<or> (minor a = minor b
                  \<and> (patch a < patch b
                      \<or> (patch a = patch b \<and> prerelease_less (prerelease a) (prerelease b)))))))"


subsection \<open>A sample workspace\<close>

text \<open>
  One application tagged \<^verbatim>\<open>app-1.2.3\<close> whose only commit since is a chore, a library
  \<^verbatim>\<open>core\<close> tagged \<^verbatim>\<open>core-2.1.0\<close> with a fix, a library \<^verbatim>\<open>lib\<close> that has a
  feature commit and no tag, and a library \<^verbatim>\<open>docs\<close> tagged \<^verbatim>\<open>docs-0.3.0\<close> whose
  only commit is a chore. \<open>sample_inc\<close> is a table of five increments; it answers
  \<^verbatim>\<open>null\<close> to any other call.
\<close>

definition sample_inc :: "string \<Rightarrow> string \<Rightarrow> string option \<Rightarrow> string option" where
  "sample_inc v release identifier =
     (if v = ''1.2.3'' \<and> release = ''major'' \<and> identifier = None then Some ''2.0.0''
      else if v = ''1.2.3'' \<and> release = ''patch'' \<and> identifier = None then Some ''1.2.4''
      else if v = ''0.0.0'' \<and> release = ''minor'' \<and> identifier = None then Some ''0.1.0''
      else if v = ''1.2.3'' \<and> release = ''preminor'' \<and> identifier = Some ''beta''
      then Some ''1.3.0-beta.0''
      else if v = ''1.3.0-beta.0'' \<and> release = ''prerelease'' \<and> identifier = Some ''beta''
      then Some ''1.3.0-beta.1''
      else None)"

definition sample_env :: env where
  "sample_env =
    \<lparr> getLastVersion = (\<lambda>tp pid rt.
        if tp = ''app-'' then Inr ''1.2.3''
        else if tp = ''core-'' then Inr ''2.1.0''
        else if tp = ''docs-'' then Inr ''0.3.0''
        else Inl (CollaboratorError ''No semver tag found'')),
      getFirstCommitRef = Inr ''4b825dc'',
      getCommits = (\<lambda>root since.
        if root = ''apps/app'' then Inr [''chore: tidy'']
        else if root = ''libs/core'' then Inr [''fix: bug'']
        else if root = ''libs/lib'' then Inr [''feat: add'']
        else if root = ''libs/docs'' then Inr [''chore: typo'']
        else Inr []),
      formatTag = (\<lambda>tp v. tp @ v),
      formatTagPrefix = (\<lambda>vtp n sync. n @ ''-''),
      parseConventionalCommitsSync = (\<lambda>commit options.
        if CHR '':'' \<in> set commit then Some (takeWhile (\<lambda>c. c \<noteq> CHR '':'') commit) else None),
      conventionalRecommendedBump = (\<lambda>root tp skip p config.
        if root = ''libs/lib'' then Inr (Some ''minor'')
        else if root = ''libs/core'' then Inr (Some ''patch'')
        else Inr None),
      semver_inc = sample_inc,
      semver_parse = parse_version \<rparr>"

definition sample_options :: TryBumpOptions where
  "sample_options =
    \<lparr> commitParserOptions = None,
      preset = PresetString ''angular'',
      projectRoot = ''apps/app'',
      tagPrefix = ''app-'',
      dependencyRoots = None,
      releaseType = None,
      preid = None,
      skipUnstable = None,
      versionTagPrefix = None,
      syncVersions = False,
      allowEmptyRelease = None,
      skipCommitTypes = [''chore''],
      projectName = ''app'' \<rparr>"

definition core_root :: DependencyRoot where
  "core_root = \<lparr> path = ''libs/core'', name = ''core'' \<rparr>"

definition lib_root :: DependencyRoot where
  "lib_root = \<lparr> path = ''libs/lib'', name = ''lib'' \<rparr>"

definition docs_root :: DependencyRoot where
  "docs_root = \<lparr> path = ''libs/docs'', name = ''docs'' \<rparr>"

subsection \<open>A project in a prerelease train\<close>



section \<open>Properties\<close>

subsection \<open>The operators\<close>

lemma switchMap_simps:
  "switchMap (Inl e) f = Inl e" "switchMap (Inr x) f = f x"
  by (simp_all add: switchMap_def)

lemma map_op_simps:
  "map_op (Inl e) f = Inl e" "map_op (Inr x) f = Inr (f x)"
  by (simp_all add: map_op_def)

lemma catchError_simps:
  "catchError (Inl e) h = h e" "catchError (Inr x) h = Inr x"
  by (simp_all add: catchError_def)

lemma forkJoin3_Inr: "forkJoin3 (Inr a) (Inr b) (Inr c) = Inr (a, b, c)"
  by (simp add: forkJoin3_def switchMap_simps)

lemma forkJoin2_Inr: "forkJoin2 (Inr a) (Inr b) = Inr (a, b)"
  by (simp add: forkJoin2_def switchMap_simps)

lemma forkJoin3_Inr_iff:
  "forkJoin3 a b c = Inr r \<longleftrightarrow> a = Inr (fst r) \<and> b = Inr (fst (snd r)) \<and> c = Inr (snd (snd r))"
  by (cases a; cases b; cases c) (auto simp: forkJoin3_def switchMap_simps)

lemma forkJoin2_Inr_iff:
  "forkJoin2 a b = Inr r \<longleftrightarrow> a = Inr (fst r) \<and> b = Inr (snd r)"
  by (cases a; cases b) (auto simp: forkJoin2_def switchMap_simps)

lemma switchMap_Inr_iff:
  "switchMap a f = Inr y \<longleftrightarrow> (\<exists>x. a = Inr x \<and> f x = Inr y)"
  by (cases a) (simp_all add: switchMap_simps)

lemma map_op_Inr_iff:
  "map_op a f = Inr y \<longleftrightarrow> (\<exists>x. a = Inr x \<and> y = f x)"
  by (cases a) (auto simp: map_op_simps)

lemma forkJoin_Inr_iff: "forkJoin xs = Inr ys \<longleftrightarrow> xs = map Inr ys"
proof (induction xs arbitrary: ys)
  case Nil
  then show ?case by auto
next
  case (Cons x xs)
  show ?case
  proof (cases x)
    case (Inl e)
    then show ?thesis by (auto simp: switchMap_simps)
  next
    case (Inr v)
    show ?thesis
    proof (cases "forkJoin xs")
      case (Inl e)
      have "xs \<noteq> map Inr zs" for zs
        using Cons.IH [of zs] Inl by auto
      with Inl Inr show ?thesis by (auto simp: switchMap_simps)
    next
      case inner: (Inr vs)
      have "xs = map Inr vs"
        using Cons.IH [of vs] inner by simp
      with inner Inr show ?thesis by (auto simp: switchMap_simps)
    qed
  qed
qed

subsection \<open>The version window\<close>

lemma lastVersion_resolved:
  "lastVersion_S (getProjectVersion env tp root rt since pn pid)
     = Inr (case getLastVersion env tp pid rt of Inl _ \<Rightarrow> initialVersion | Inr v \<Rightarrow> v)"
  by (simp add: getProjectVersion_def Let_def catchError_def split: sum.splits)

subsection \<open>The branches of \<open>tryBump\<close>\<close>

lemma tryBump_resolved:
  assumes "lastVersion_S (primaryVersion env opts) = Inr lv"
    and "commits_S (primaryVersion env opts) = Inr cs"
    and "lastVersionGitRef_S (primaryVersion env opts) = Inr ref"
  shows "tryBump env opts =
    (if truthy (releaseType opts) \<and> releaseType opts \<noteq> Some ''prerelease''
     then tryBump_manual env opts lv (case releaseType opts of Some rt \<Rightarrow> rt | None \<Rightarrow> [])
     else tryBump_automatic env opts lv cs ref)"
  using assms
  by (simp add: tryBump_def Let_def forkJoin3_Inr switchMap_simps truthy_def split: option.splits)

text \<open>
  A failure of the commit fetch or of the first-commit lookup is the outcome of
  \<open>tryBump\<close> on every path: the three observables are joined before the release type is
  looked at.
\<close>

lemma tryBump_window_failure:
  assumes "commits_S (primaryVersion env opts) = Inl e"
  shows "tryBump env opts = Inl e"
proof -
  obtain lv where "lastVersion_S (primaryVersion env opts) = Inr lv"
    by (auto simp: primaryVersion_def lastVersion_resolved)
  with assms show ?thesis
    by (simp add: tryBump_def Let_def forkJoin3_def switchMap_simps)
qed

lemma tryBump_manual_resolved:
  "tryBump_manual env opts lv rt =
    Inr (case semver_inc env lv rt (if truthy (preid opts) then preid opts else None) of
           None \<Rightarrow> None
         | Some v \<Rightarrow>
             if v \<noteq> []
             then Some \<lparr> version = v, previousVersion = lv, dependencyUpdates = [] \<rparr>
             else None)"
  by (simp add: tryBump_manual_def manualBump_def map_op_simps)

lemma tryBump_automatic_resolved:
  assumes "projectBump env opts lv = Inr pb"
    and "dependencyVersions env opts ref = Inr dvs"
  shows "tryBump_automatic env opts lv cs ref =
    (if v_version pb = None \<and> filter isNewVersion dvs \<noteq> []
     then Inr (case semver_inc env lv ''patch'' (if truthy (preid opts) then preid opts else None) of
                None \<Rightarrow> None
              | Some v \<Rightarrow>
                  if v \<noteq> []
                  then Some \<lparr> version = v, previousVersion = lv,
                              dependencyUpdates = filter isNewVersion dvs \<rparr>
                  else None)
     else if filter isNewVersion dvs = []
            \<and> filteredCommits env cs (commitParserOptions opts) (skipCommitTypes opts) = []
            \<and> \<not> truthy_flag (allowEmptyRelease opts)
          then Inr None
          else Inr (Some \<lparr> version = or_else (v_version pb) lv, previousVersion = lv,
                           dependencyUpdates = filter isNewVersion dvs \<rparr>))"
  using assms
  by (auto simp: tryBump_automatic_def forkJoin2_Inr switchMap_simps Let_def manualBump_def
        map_op_simps or_else_def split: option.splits)

lemma projectBump_Inr_iff:
  "projectBump env opts lv = Inr pb \<longleftrightarrow>
     (\<exists>v. semverBump env lv (preset opts) (projectRoot opts) (tagPrefix opts) (releaseType opts)
            (preid opts) (skipUnstable opts) = Inr v
          \<and> pb = \<lparr> v_type = ''project'', v_version = v, v_dependencyName = None \<rparr>)"
  by (simp add: projectBump_def map_op_Inr_iff)

lemma tryBump_Inr_resolved:
  assumes "tryBump env opts = Inr r"
  obtains lv cs ref where "lastVersion_S (primaryVersion env opts) = Inr lv"
    and "commits_S (primaryVersion env opts) = Inr cs"
    and "lastVersionGitRef_S (primaryVersion env opts) = Inr ref"
  using assms
  by (auto simp: tryBump_def Let_def switchMap_Inr_iff forkJoin3_Inr_iff)

lemma tryBump_automatic_Inr_resolved:
  assumes "tryBump_automatic env opts lv cs ref = Inr r"
  obtains pb dvs where "projectBump env opts lv = Inr pb"
    and "dependencyVersions env opts ref = Inr dvs"
  using assms
  by (auto simp: tryBump_automatic_def switchMap_Inr_iff forkJoin2_Inr_iff)

subsection \<open>Precedence is irreflexive and total\<close>





lemma ascii_less_total: "ascii_less s t \<or> s = t \<or> ascii_less t s"
proof (induction s t rule: ascii_less.induct)
  case (1 uu)
  then show ?case by (cases uu) simp_all
next
  case (2 uv uw)
  then show ?case by simp
next
  case (3 x xs y ys)
  then show ?case
    by (cases "(of_char x :: nat) < of_char y"; cases "(of_char y :: nat) < of_char x")
       (auto simp: not_less dest: antisym)
qed

lemma identifier_less_total: "identifier_less i j \<or> i = j \<or> identifier_less j i"
  using ascii_less_total by (cases i; cases j) auto

lemma identifiers_less_total: "identifiers_less p q \<or> p = q \<or> identifiers_less q p"
proof (induction p q rule: identifiers_less.induct)
  case (1 uu)
  then show ?case by (cases uu) simp_all
next
  case (2 uv uw)
  then show ?case by simp
next
  case (3 x xs y ys)
  then show ?case using identifier_less_total [of x y] by auto
qed

lemma semver_less_total: "semver_less a b \<or> a = b \<or> semver_less b a"
proof -
  consider "major a < major b" | "major b < major a" | "major a = major b" by linarith
  then show ?thesis
  proof cases
    case 3
    consider "minor a < minor b" | "minor b < minor a" | "minor a = minor b" by linarith
    then show ?thesis
    proof cases
      case 3
      consider "patch a < patch b" | "patch b < patch a" | "patch a = patch b" by linarith
      then show ?thesis
      proof cases
        case 3
        have "prerelease_less (prerelease a) (prerelease b) \<or> prerelease a = prerelease b
            \<or> prerelease_less (prerelease b) (prerelease a)"
          using identifiers_less_total [of "prerelease a" "prerelease b"]
          by (auto simp: prerelease_less_def)
        moreover have "a = b" if "prerelease a = prerelease b"
          using that \<open>major a = major b\<close> \<open>minor a = minor b\<close> \<open>patch a = patch b\<close>
          by simp
        ultimately show ?thesis
          using \<open>major a = major b\<close> \<open>minor a = minor b\<close> \<open>patch a = patch b\<close>
          by (auto simp: semver_less_def)
      qed (simp_all add: semver_less_def \<open>major a = major b\<close> \<open>minor a = minor b\<close>)
    qed (simp_all add: semver_less_def \<open>major a = major b\<close>)
  qed (simp_all add: semver_less_def)
qed


text \<open>
  Whatever \<open>tryBump\<close> returns: the previous version is the resolved last version, the
  version is that one or an increment of it (with the caller's \<^verbatim>\<open>preid\<close> or with no
  identifier), and every dependency update is a new version.
\<close>

lemma tryBump_version_cases:
  assumes "tryBump env opts = Inr (Some nv)"
  shows "lastVersion_S (primaryVersion env opts) = Inr (previousVersion nv)
    \<and> (version nv = previousVersion nv
        \<or> (\<exists>rt p. (p = preid opts \<or> p = None)
              \<and> semver_inc env (previousVersion nv) rt p = Some (version nv)))
    \<and> (\<forall>d \<in> set (dependencyUpdates nv). isNewVersion d)"
proof -
  from assms obtain lv cs ref where w: "lastVersion_S (primaryVersion env opts) = Inr lv"
    "commits_S (primaryVersion env opts) = Inr cs"
    "lastVersionGitRef_S (primaryVersion env opts) = Inr ref"
    by (rule tryBump_Inr_resolved)
  note split = tryBump_resolved [OF w]
  have manual: "(if truthy (preid opts) then preid opts else None) = preid opts
      \<or> (if truthy (preid opts) then preid opts else None) = None"
    by simp
  have goal: "previousVersion nv = lv
    \<and> (version nv = lv
        \<or> (\<exists>rt p. (p = preid opts \<or> p = None) \<and> semver_inc env lv rt p = Some (version nv)))
    \<and> (\<forall>d \<in> set (dependencyUpdates nv). isNewVersion d)"
  proof (cases "truthy (releaseType opts) \<and> releaseType opts \<noteq> Some ''prerelease''")
    case True
    define rt where "rt = (case releaseType opts of Some rt \<Rightarrow> rt | None \<Rightarrow> [])"
    define p where "p = (if truthy (preid opts) then preid opts else None)"
    from True assms split have "tryBump_manual env opts lv rt = Inr (Some nv)"
      by (simp add: rt_def)
    then have "semver_inc env lv rt p = Some (version nv)"
      and "previousVersion nv = lv" and "dependencyUpdates nv = []"
      by (auto simp: tryBump_manual_resolved p_def split: option.splits if_splits)
    moreover have "p = preid opts \<or> p = None"
      by (simp add: p_def)
    ultimately show ?thesis by auto
  next
    case False
    with assms split have a: "tryBump_automatic env opts lv cs ref = Inr (Some nv)"
      by simp
    then obtain pb dvs where r: "projectBump env opts lv = Inr pb"
      "dependencyVersions env opts ref = Inr dvs"
      by (rule tryBump_automatic_Inr_resolved)
    from r(1) obtain v where v: "semverBump env lv (preset opts) (projectRoot opts)
        (tagPrefix opts) (releaseType opts) (preid opts) (skipUnstable opts) = Inr v"
      "v_version pb = v"
      by (auto simp: projectBump_Inr_iff)
    have inc: "\<exists>rt. semver_inc env lv rt (preid opts) = Some x" if "v = Some x" for x
      using v(1) that
      by (auto simp: semverBump_def switchMap_Inr_iff Let_def split: option.splits if_splits)
    define p where "p = (if truthy (preid opts) then preid opts else None)"
    have p: "p = preid opts \<or> p = None"
      by (simp add: p_def)
    show ?thesis
    proof (cases "v_version pb = None \<and> filter isNewVersion dvs \<noteq> []")
      case True
      with a have "semver_inc env lv ''patch'' p = Some (version nv)"
        and "previousVersion nv = lv" and "dependencyUpdates nv = filter isNewVersion dvs"
        unfolding tryBump_automatic_resolved [OF r]
        by (auto simp: p_def split: option.splits if_splits)
      with p show ?thesis by auto
    next
      case False
      with a have nv: "version nv = or_else (v_version pb) lv"
        "previousVersion nv = lv" "dependencyUpdates nv = filter isNewVersion dvs"
        unfolding tryBump_automatic_resolved [OF r]
        by (auto split: if_splits)
      have "version nv = lv \<or> (\<exists>rt. semver_inc env lv rt (preid opts) = Some (version nv))"
        using nv(1) v(2) inc by (auto simp: or_else_def split: option.splits if_splits)
      with nv show ?thesis by auto
    qed
  qed
  with w(1) show ?thesis by simp
qed

subsection \<open>The sample workspace, evaluated\<close>

lemma sample_collaborators:
  "getLastVersion sample_env tp pid rt =
     (if tp = ''app-'' then Inr ''1.2.3''
      else if tp = ''core-'' then Inr ''2.1.0''
      else if tp = ''docs-'' then Inr ''0.3.0''
      else Inl (CollaboratorError ''No semver tag found''))"
  "getFirstCommitRef sample_env = Inr ''4b825dc''"
  "getCommits sample_env root since =
     (if root = ''apps/app'' then Inr [''chore: tidy'']
      else if root = ''libs/core'' then Inr [''fix: bug'']
      else if root = ''libs/lib'' then Inr [''feat: add'']
      else if root = ''libs/docs'' then Inr [''chore: typo'']
      else Inr [])"
  "formatTag sample_env tp v = tp @ v"
  "formatTagPrefix sample_env vtp n sync = n @ ''-''"
  "parseConventionalCommitsSync sample_env commit options =
     (if CHR '':'' \<in> set commit then Some (takeWhile (\<lambda>c. c \<noteq> CHR '':'') commit) else None)"
  "conventionalRecommendedBump sample_env root tp skip p config =
     (if root = ''libs/lib'' then Inr (Some ''minor'')
      else if root = ''libs/core'' then Inr (Some ''patch'')
      else Inr None)"
  "semver_inc sample_env = sample_inc"
  "semver_parse sample_env = parse_version"
  by (simp_all add: sample_env_def)

lemma sample_window:
  assumes "tagPrefix opts = ''app-''" and "projectRoot opts = ''apps/app''"
  shows "lastVersion_S (primaryVersion sample_env opts) = Inr ''1.2.3''"
    and "commits_S (primaryVersion sample_env opts) = Inr [''chore: tidy'']"
    and "lastVersionGitRef_S (primaryVersion sample_env opts) = Inr ''app-1.2.3''"
  using assms
  by (simp_all add: primaryVersion_def getProjectVersion_def Let_def catchError_simps
        switchMap_simps isInitialVersion_def initialVersion_def sample_collaborators)

lemma sample_no_recommendation:
  "semverBump sample_env since ps ''apps/app'' tp rt pid su = Inr None"
  by (simp add: semverBump_def sample_collaborators switchMap_simps truthy_def)

lemma sample_classifier:
  "shouldCommitBeCalculated sample_env ''chore: tidy'' None [''chore''] = False"
  "shouldCommitBeCalculated sample_env ''chore: tidy'' None [] = True"
  "shouldCommitBeCalculated sample_env ''fix: bug'' None [''chore''] = True"
  "shouldCommitBeCalculated sample_env ''feat: add'' None [''chore''] = True"
  by (simp_all add: shouldCommitBeCalculated_def sample_collaborators)

lemma sample_core_version:
  "dependencyVersion sample_env None ps rt vtp sync ref [''chore''] pn pid su core_root
     = Inr \<lparr> v_type = ''dependency'', v_version = Some ''2.1.0'',
             v_dependencyName = Some ''core'' \<rparr>"
  by (simp add: dependencyVersion_def dependencyWindow_def getProjectVersion_def Let_def
        core_root_def catchError_simps switchMap_simps forkJoin2_Inr filteredCommits_def
        sample_classifier isInitialVersion_def initialVersion_def sample_collaborators)

lemma sample_lib_version:
  "dependencyVersion sample_env None ps rt vtp sync ref [''chore''] pn pid su lib_root
     = Inr \<lparr> v_type = ''dependency'', v_version = Some ''0.1.0'',
             v_dependencyName = Some ''lib'' \<rparr>"
  by (simp add: dependencyVersion_def dependencyWindow_def getProjectVersion_def Let_def
        lib_root_def catchError_simps switchMap_simps forkJoin2_Inr filteredCommits_def
        sample_classifier isInitialVersion_def initialVersion_def sample_collaborators
        semverBump_def truthy_def map_op_simps sample_inc_def)

lemma sample_dependencies:
  assumes "dependencyRoots opts = Some [core_root, lib_root]"
    and "commitParserOptions opts = None" and "skipCommitTypes opts = [''chore'']"
  shows "dependencyVersions sample_env opts ref
     = Inr [\<lparr> v_type = ''dependency'', v_version = Some ''2.1.0'',
              v_dependencyName = Some ''core'' \<rparr>,
            \<lparr> v_type = ''dependency'', v_version = Some ''0.1.0'',
              v_dependencyName = Some ''lib'' \<rparr>]"
  using assms
  by (simp add: dependencyVersions_def getDependencyVersions_def forkJoin_defaultIfEmpty_def
        sample_core_version sample_lib_version switchMap_simps)

lemma sample_no_dependencies:
  assumes "dependencyRoots opts = None"
  shows "dependencyVersions sample_env opts ref = Inr []"
  using assms
  by (simp add: dependencyVersions_def getDependencyVersions_def forkJoin_defaultIfEmpty_def)

lemma tryBump_automatic_path:
  assumes "\<not> (truthy (releaseType opts) \<and> releaseType opts \<noteq> Some ''prerelease'')"
    and "lastVersion_S (primaryVersion env opts) = Inr lv"
    and "commits_S (primaryVersion env opts) = Inr cs"
    and "lastVersionGitRef_S (primaryVersion env opts) = Inr ref"
  shows "tryBump env opts = tryBump_automatic env opts lv cs ref"
  unfolding tryBump_resolved [OF assms(2-4)] using assms(1) by (rule if_not_P)

section \<open>The claims\<close>

text \<open>
  C1. When the caller supplies a release type other than \<^verbatim>\<open>'prerelease'\<close> (a non-empty
  string, as the type \<^verbatim>\<open>ReleaseIdentifier\<close> has it) and the window of the primary
  project resolves to the last version \<open>lv\<close>, the result of \<open>tryBump\<close> is a function of
  \<^verbatim>\<open>semver.inc(lv, releaseType, preid)\<close> alone: a version string gives that version with
  \<open>lv\<close> as previous version and no dependency updates, \<^verbatim>\<open>null\<close> gives no release.
  Neither the recommendation nor the dependencies are consulted.
\<close>

theorem tryBump_manual_override:
  assumes "releaseType opts = Some rt" and "rt \<noteq> []" and "rt \<noteq> ''prerelease''"
    and "lastVersion_S (primaryVersion env opts) = Inr lv"
    and "commits_S (primaryVersion env opts) = Inr cs"
    and "lastVersionGitRef_S (primaryVersion env opts) = Inr ref"
  shows "tryBump env opts =
    Inr (case semver_inc env lv rt (if truthy (preid opts) then preid opts else None) of
           None \<Rightarrow> None
         | Some v \<Rightarrow>
             if v \<noteq> []
             then Some \<lparr> version = v, previousVersion = lv, dependencyUpdates = [] \<rparr>
             else None)"
  using assms(1-3)
  by (simp add: tryBump_resolved [OF assms(4-6)] truthy_def tryBump_manual_resolved)

theorem tryBump_manual_override_witness:
  "tryBump sample_env (sample_options\<lparr>releaseType := Some ''major''\<rparr>)
     = Inr (Some \<lparr> version = ''2.0.0'', previousVersion = ''1.2.3'', dependencyUpdates = [] \<rparr>)
   \<and> tryBump sample_env (sample_options\<lparr>releaseType := Some ''invalid''\<rparr>) = Inr None"
proof -
  have o: "tagPrefix (sample_options\<lparr>releaseType := Some r\<rparr>) = ''app-''"
    "projectRoot (sample_options\<lparr>releaseType := Some r\<rparr>) = ''apps/app''"
    "preid (sample_options\<lparr>releaseType := Some r\<rparr>) = None" for r
    by (simp_all add: sample_options_def)
  have a: "tryBump sample_env (sample_options\<lparr>releaseType := Some ''major''\<rparr>)
     = Inr (Some \<lparr> version = ''2.0.0'', previousVersion = ''1.2.3'', dependencyUpdates = [] \<rparr>)"
    using tryBump_manual_override [OF _ _ _ sample_window [OF o(1,2)], of "''major''"]
    by (simp add: o truthy_def sample_collaborators sample_inc_def)
  have b: "tryBump sample_env (sample_options\<lparr>releaseType := Some ''invalid''\<rparr>) = Inr None"
    using tryBump_manual_override [OF _ _ _ sample_window [OF o(1,2)], of "''invalid''"]
    by (simp add: o truthy_def sample_collaborators sample_inc_def)
  from a b show ?thesis by simp
qed

text \<open>
  C2. On the automatic path (no release type, or \<^verbatim>\<open>'prerelease'\<close>), when the bump of the
  primary project is \<^verbatim>\<open>null\<close> and the dependency versions that are new versions are not
  empty, the version returned is \<^verbatim>\<open>semver.inc(lv, 'patch', preid)\<close> of the resolved last
  version \<open>lv\<close>, which is also the previous version; when that increment is \<^verbatim>\<open>null\<close>
  the result is no release.
\<close>

theorem tryBump_forced_patch:
  assumes "\<not> (truthy (releaseType opts) \<and> releaseType opts \<noteq> Some ''prerelease'')"
    and "lastVersion_S (primaryVersion env opts) = Inr lv"
    and "commits_S (primaryVersion env opts) = Inr cs"
    and "lastVersionGitRef_S (primaryVersion env opts) = Inr ref"
    and "semverBump env lv (preset opts) (projectRoot opts) (tagPrefix opts) (releaseType opts)
           (preid opts) (skipUnstable opts) = Inr None"
    and "dependencyVersions env opts ref = Inr dvs"
    and "filter isNewVersion dvs \<noteq> []"
  shows "tryBump env opts =
    Inr (case semver_inc env lv ''patch'' (if truthy (preid opts) then preid opts else None) of
           None \<Rightarrow> None
         | Some v \<Rightarrow>
             if v \<noteq> []
             then Some \<lparr> version = v, previousVersion = lv,
                         dependencyUpdates = filter isNewVersion dvs \<rparr>
             else None)"
proof -
  have pb: "projectBump env opts lv
      = Inr \<lparr> v_type = ''project'', v_version = None, v_dependencyName = None \<rparr>"
    using assms(5) by (simp add: projectBump_def map_op_simps)
  show ?thesis
    using assms(7)
    by (simp add: tryBump_automatic_path [OF assms(1-4)]
          tryBump_automatic_resolved [OF pb assms(6)])
qed

theorem tryBump_forced_patch_witness:
  "tryBump sample_env (sample_options\<lparr>dependencyRoots := Some [core_root, lib_root]\<rparr>)
     = Inr (Some \<lparr> version = ''1.2.4'', previousVersion = ''1.2.3'',
                   dependencyUpdates =
                     [\<lparr> v_type = ''dependency'', v_version = Some ''2.1.0'',
                        v_dependencyName = Some ''core'' \<rparr>,
                      \<lparr> v_type = ''dependency'', v_version = Some ''0.1.0'',
                        v_dependencyName = Some ''lib'' \<rparr>] \<rparr>)"
proof -
  let ?o = "sample_options\<lparr>dependencyRoots := Some [core_root, lib_root]\<rparr>"
  have o: "tagPrefix ?o = ''app-''" "projectRoot ?o = ''apps/app''" "preid ?o = None"
    "releaseType ?o = None" "commitParserOptions ?o = None" "skipCommitTypes ?o = [''chore'']"
    "dependencyRoots ?o = Some [core_root, lib_root]"
    by (simp_all add: sample_options_def)
  have auto_path: "\<not> (truthy (releaseType ?o) \<and> releaseType ?o \<noteq> Some ''prerelease'')"
    by (simp add: o truthy_def)
  have bump: "semverBump sample_env ''1.2.3'' (preset ?o) (projectRoot ?o) (tagPrefix ?o)
      (releaseType ?o) (preid ?o) (skipUnstable ?o) = Inr None"
    by (simp only: o(2) sample_no_recommendation)
  have new: "filter isNewVersion
      [\<lparr> v_type = ''dependency'', v_version = Some ''2.1.0'', v_dependencyName = Some ''core'' \<rparr>,
       \<lparr> v_type = ''dependency'', v_version = Some ''0.1.0'', v_dependencyName = Some ''lib'' \<rparr>]
      \<noteq> []"
    by (simp add: isNewVersion_def initialVersion_def)
  show ?thesis
    using tryBump_forced_patch [OF auto_path sample_window [OF o(1,2)] bump
        sample_dependencies [OF o(7,5,6)] new]
    by (simp add: o truthy_def sample_collaborators sample_inc_def isNewVersion_def
          initialVersion_def)
qed

text \<open>
  C3. On the automatic path, when the bump of the primary project and the dependency
  versions are computed, no dependency version is a new version, the parsed type of every
  commit of the primary project's window is one of \<^verbatim>\<open>skipCommitTypes\<close>, and
  \<^verbatim>\<open>allowEmptyRelease\<close> is not set, the result is no release.
\<close>

theorem tryBump_empty_release_suppressed:
  assumes "\<not> (truthy (releaseType opts) \<and> releaseType opts \<noteq> Some ''prerelease'')"
    and "lastVersion_S (primaryVersion env opts) = Inr lv"
    and "commits_S (primaryVersion env opts) = Inr cs"
    and "lastVersionGitRef_S (primaryVersion env opts) = Inr ref"
    and "semverBump env lv (preset opts) (projectRoot opts) (tagPrefix opts) (releaseType opts)
           (preid opts) (skipUnstable opts) = Inr bumped"
    and "dependencyVersions env opts ref = Inr dvs"
    and "filter isNewVersion dvs = []"
    and "\<forall>c \<in> set cs. \<exists>t \<in> set (skipCommitTypes opts).
           parseConventionalCommitsSync env c
             (case commitParserOptions opts of Some options \<Rightarrow> options | None \<Rightarrow> []) = Some t"
    and "\<not> truthy_flag (allowEmptyRelease opts)"
  shows "tryBump env opts = Inr None"
proof -
  have pb: "projectBump env opts lv
      = Inr \<lparr> v_type = ''project'', v_version = bumped, v_dependencyName = None \<rparr>"
    using assms(5) by (simp add: projectBump_def map_op_simps)
  have "\<not> shouldCommitBeCalculated env c (commitParserOptions opts) (skipCommitTypes opts)"
    if "c \<in> set cs" for c
    using assms(8) that
    by (fastforce simp: shouldCommitBeCalculated_def Let_def list_ex_iff)
  then have none: "filteredCommits env cs (commitParserOptions opts) (skipCommitTypes opts) = []"
    by (simp add: filteredCommits_def filter_empty_conv)
  show ?thesis
    using assms(7,9) none
    by (simp add: tryBump_automatic_path [OF assms(1-4)]
          tryBump_automatic_resolved [OF pb assms(6)])
qed

theorem tryBump_empty_release_suppressed_witness:
  "tryBump sample_env sample_options = Inr None"
proof -
  have o: "tagPrefix sample_options = ''app-''" "projectRoot sample_options = ''apps/app''"
    "releaseType sample_options = None" "commitParserOptions sample_options = None"
    "skipCommitTypes sample_options = [''chore'']" "dependencyRoots sample_options = None"
    "allowEmptyRelease sample_options = None"
    by (simp_all add: sample_options_def)
  have auto_path: "\<not> (truthy (releaseType sample_options)
      \<and> releaseType sample_options \<noteq> Some ''prerelease'')"
    by (simp add: o truthy_def)
  have bump: "semverBump sample_env ''1.2.3'' (preset sample_options) (projectRoot sample_options)
      (tagPrefix sample_options) (releaseType sample_options) (preid sample_options)
      (skipUnstable sample_options) = Inr None"
    by (simp only: o(2) sample_no_recommendation)
  have none: "filter isNewVersion [] = []"
    by simp
  have skipped: "\<forall>c \<in> set [''chore: tidy'']. \<exists>t \<in> set (skipCommitTypes sample_options).
      parseConventionalCommitsSync sample_env c
        (case commitParserOptions sample_options of Some options \<Rightarrow> options | None \<Rightarrow> [])
      = Some t"
    by (simp add: o sample_collaborators)
  have flag: "\<not> truthy_flag (allowEmptyRelease sample_options)"
    by (simp add: o truthy_flag_def)
  show ?thesis
    by (rule tryBump_empty_release_suppressed [OF auto_path sample_window [OF o(1,2)] bump
          sample_no_dependencies [OF o(6)] none skipped flag])
qed



lemma sample_with_dependencies:
  "tryBump sample_env (sample_options\<lparr>dependencyRoots := Some [core_root, lib_root]\<rparr>)
     = Inr (Some \<lparr> version = ''1.2.4'', previousVersion = ''1.2.3'',
                   dependencyUpdates =
                     [\<lparr> v_type = ''dependency'', v_version = Some ''2.1.0'',
                        v_dependencyName = Some ''core'' \<rparr>,
                      \<lparr> v_type = ''dependency'', v_version = Some ''0.1.0'',
                        v_dependencyName = Some ''lib'' \<rparr>] \<rparr>)"
proof -
  let ?o = "sample_options\<lparr>dependencyRoots := Some [core_root, lib_root]\<rparr>"
  have o: "tagPrefix ?o = ''app-''" "projectRoot ?o = ''apps/app''" "preid ?o = None"
    "releaseType ?o = None" "commitParserOptions ?o = None" "skipCommitTypes ?o = [''chore'']"
    "dependencyRoots ?o = Some [core_root, lib_root]"
    by (simp_all add: sample_options_def)
  have auto_path: "\<not> (truthy (releaseType ?o) \<and> releaseType ?o \<noteq> Some ''prerelease'')"
    by (simp add: o truthy_def)
  have bump: "projectBump sample_env ?o ''1.2.3''
      = Inr \<lparr> v_type = ''project'', v_version = None, v_dependencyName = None \<rparr>"
    by (simp add: projectBump_def o(2) sample_no_recommendation map_op_simps)
  show ?thesis
    by (simp add: tryBump_automatic_path [OF auto_path sample_window [OF o(1,2)]]
          tryBump_automatic_resolved [OF bump sample_dependencies [OF o(7,5,6)]]
          o truthy_def sample_collaborators sample_inc_def isNewVersion_def initialVersion_def)
qed





text \<open>
  C5. When \<open>tryBump\<close> returns a new version, no entry of its dependency updates has the
  version \<^verbatim>\<open>null\<close> or the initial version \<^verbatim>\<open>0.0.0\<close>.
\<close>

theorem tryBump_dependencyUpdates_new:
  assumes "tryBump env opts = Inr (Some nv)"
  shows "\<forall>d \<in> set (dependencyUpdates nv). v_version d \<noteq> None \<and> v_version d \<noteq> Some ''0.0.0''"
  using tryBump_version_cases [OF assms]
  by (simp add: isNewVersion_def initialVersion_def)

theorem tryBump_dependencyUpdates_new_witness:
  "v_version \<lparr> v_type = ''dependency'', v_version = Some ''2.1.0'',
               v_dependencyName = Some ''core'' \<rparr> \<noteq> None
   \<and> v_version \<lparr> v_type = ''dependency'', v_version = Some ''2.1.0'',
                 v_dependencyName = Some ''core'' \<rparr> \<noteq> Some ''0.0.0''
   \<and> v_version \<lparr> v_type = ''dependency'', v_version = Some ''0.1.0'',
                 v_dependencyName = Some ''lib'' \<rparr> \<noteq> None
   \<and> v_version \<lparr> v_type = ''dependency'', v_version = Some ''0.1.0'',
                 v_dependencyName = Some ''lib'' \<rparr> \<noteq> Some ''0.0.0''"
  using tryBump_dependencyUpdates_new [OF sample_with_dependencies]
  by simp

text \<open>
  C9. On the automatic path, when the bump of the primary project is \<^verbatim>\<open>null\<close>, no
  dependency version is a new version, and \<^verbatim>\<open>allowEmptyRelease\<close> is set or a commit of
  the primary project's window counts, \<open>tryBump\<close> returns a new version whose version
  is the last version unchanged, not the absence of a release.
\<close>

theorem tryBump_unchanged_version:
  assumes "\<not> (truthy (releaseType opts) \<and> releaseType opts \<noteq> Some ''prerelease'')"
    and "lastVersion_S (primaryVersion env opts) = Inr lv"
    and "commits_S (primaryVersion env opts) = Inr cs"
    and "lastVersionGitRef_S (primaryVersion env opts) = Inr ref"
    and "semverBump env lv (preset opts) (projectRoot opts) (tagPrefix opts) (releaseType opts)
           (preid opts) (skipUnstable opts) = Inr None"
    and "dependencyVersions env opts ref = Inr dvs"
    and "filter isNewVersion dvs = []"
    and "truthy_flag (allowEmptyRelease opts)
         \<or> (\<exists>c \<in> set cs.
              shouldCommitBeCalculated env c (commitParserOptions opts) (skipCommitTypes opts))"
  shows "tryBump env opts =
           Inr (Some \<lparr> version = lv, previousVersion = lv, dependencyUpdates = [] \<rparr>)"
proof -
  have pb: "projectBump env opts lv
      = Inr \<lparr> v_type = ''project'', v_version = None, v_dependencyName = None \<rparr>"
    using assms(5) by (simp add: projectBump_def map_op_simps)
  have "truthy_flag (allowEmptyRelease opts)
      \<or> filteredCommits env cs (commitParserOptions opts) (skipCommitTypes opts) \<noteq> []"
    using assms(8) by (auto simp: filteredCommits_def filter_empty_conv)
  then show ?thesis
    using assms(7)
    by (auto simp: tryBump_automatic_path [OF assms(1-4)]
          tryBump_automatic_resolved [OF pb assms(6)] or_else_def)
qed

theorem tryBump_unchanged_version_witness:
  "tryBump sample_env (sample_options\<lparr>allowEmptyRelease := Some True\<rparr>)
     = Inr (Some \<lparr> version = ''1.2.3'', previousVersion = ''1.2.3'', dependencyUpdates = [] \<rparr>)
   \<and> tryBump sample_env (sample_options\<lparr>skipCommitTypes := []\<rparr>)
     = Inr (Some \<lparr> version = ''1.2.3'', previousVersion = ''1.2.3'', dependencyUpdates = [] \<rparr>)"
proof -
  let ?a = "sample_options\<lparr>allowEmptyRelease := Some True\<rparr>"
  let ?b = "sample_options\<lparr>skipCommitTypes := []\<rparr>"
  have a: "tagPrefix ?a = ''app-''" "projectRoot ?a = ''apps/app''" "releaseType ?a = None"
    "dependencyRoots ?a = None" "allowEmptyRelease ?a = Some True"
    by (simp_all add: sample_options_def)
  have b: "tagPrefix ?b = ''app-''" "projectRoot ?b = ''apps/app''" "releaseType ?b = None"
    "dependencyRoots ?b = None" "commitParserOptions ?b = None" "skipCommitTypes ?b = []"
    by (simp_all add: sample_options_def)
  have path_a: "\<not> (truthy (releaseType ?a) \<and> releaseType ?a \<noteq> Some ''prerelease'')"
    by (simp add: a truthy_def)
  have path_b: "\<not> (truthy (releaseType ?b) \<and> releaseType ?b \<noteq> Some ''prerelease'')"
    by (simp add: b truthy_def)
  have bump_a: "semverBump sample_env ''1.2.3'' (preset ?a) (projectRoot ?a) (tagPrefix ?a)
      (releaseType ?a) (preid ?a) (skipUnstable ?a) = Inr None"
    by (simp only: a(2) sample_no_recommendation)
  have bump_b: "semverBump sample_env ''1.2.3'' (preset ?b) (projectRoot ?b) (tagPrefix ?b)
      (releaseType ?b) (preid ?b) (skipUnstable ?b) = Inr None"
    by (simp only: b(2) sample_no_recommendation)
  have none: "filter isNewVersion [] = []"
    by simp
  have why_a: "truthy_flag (allowEmptyRelease ?a)
      \<or> (\<exists>c \<in> set [''chore: tidy''].
           shouldCommitBeCalculated sample_env c (commitParserOptions ?a) (skipCommitTypes ?a))"
    by (simp add: a truthy_flag_def)
  have why_b: "truthy_flag (allowEmptyRelease ?b)
      \<or> (\<exists>c \<in> set [''chore: tidy''].
           shouldCommitBeCalculated sample_env c (commitParserOptions ?b) (skipCommitTypes ?b))"
    by (simp add: b sample_classifier)
  show ?thesis
    using tryBump_unchanged_version [OF path_a sample_window [OF a(1,2)] bump_a
        sample_no_dependencies [OF a(4)] none why_a]
      tryBump_unchanged_version [OF path_b sample_window [OF b(1,2)] bump_b
        sample_no_dependencies [OF b(4)] none why_b]
    by simp
qed

lemma sample_parsed:
  "parse_version ''1.2.3'' = Some \<lparr> major = 1, minor = 2, patch = 3, prerelease = [] \<rparr>"
  "parse_version ''1.3.0-beta.0''
     = Some \<lparr> major = 1, minor = 3, patch = 0, prerelease = [Alphanumeric ''beta'', Numeric 0] \<rparr>"
  by code_simp+

text \<open>
  C6. \<^verbatim>\<open>_semverBump\<close>: when the recommendation has no release type, the result is
  \<^verbatim>\<open>null\<close>. When it has one and the requested release type is \<^verbatim>\<open>'prerelease'\<close>, the
  version is incremented by \<^verbatim>\<open>pre\<close> followed by the recommended type if \<open>since\<close>
  parses to a version without prerelease identifiers, and by \<^verbatim>\<open>'prerelease'\<close> if
  it parses to a version with some.
\<close>

theorem semverBump_prerelease_chain:
  "(conventionalRecommendedBump env root tp (case su of None \<Rightarrow> False | Some b \<Rightarrow> b)
      (preset_name ps) (preset_config ps) = Inr recommended \<and> \<not> truthy recommended
     \<longrightarrow> semverBump env since ps root tp rt pid su = Inr None)
   \<and> (conventionalRecommendedBump env root tp (case su of None \<Rightarrow> False | Some b \<Rightarrow> b)
      (preset_name ps) (preset_config ps) = Inr (Some category) \<and> category \<noteq> []
      \<and> semver_parse env since = Some parsed \<and> prerelease parsed = []
     \<longrightarrow> semverBump env since ps root tp (Some ''prerelease'') pid su
         = Inr (semver_inc env since (''pre'' @ category) pid))
   \<and> (conventionalRecommendedBump env root tp (case su of None \<Rightarrow> False | Some b \<Rightarrow> b)
      (preset_name ps) (preset_config ps) = Inr (Some category) \<and> category \<noteq> []
      \<and> semver_parse env since = Some parsed \<and> prerelease parsed \<noteq> []
     \<longrightarrow> semverBump env since ps root tp (Some ''prerelease'') pid su
         = Inr (semver_inc env since ''prerelease'' pid))"
  by (auto simp: semverBump_def switchMap_simps truthy_def split: option.splits)

theorem semverBump_prerelease_chain_witness:
  "semverBump sample_env ''1.2.3'' (PresetString ''angular'') ''apps/app'' ''app-''
     (Some ''prerelease'') (Some ''beta'') None = Inr None
   \<and> semverBump sample_env ''1.2.3'' (PresetString ''angular'') ''libs/lib'' ''lib-''
       (Some ''prerelease'') (Some ''beta'') None = Inr (Some ''1.3.0-beta.0'')
   \<and> semverBump sample_env ''1.3.0-beta.0'' (PresetString ''angular'') ''libs/lib'' ''lib-''
       (Some ''prerelease'') (Some ''beta'') None = Inr (Some ''1.3.0-beta.1'')"
proof -
  have a: "semverBump sample_env ''1.2.3'' (PresetString ''angular'') ''apps/app'' ''app-''
     (Some ''prerelease'') (Some ''beta'') None = Inr None"
    using semverBump_prerelease_chain [of sample_env "''apps/app''" "''app-''" None
        "PresetString ''angular''" None "''1.2.3''" "Some ''prerelease''" "Some ''beta''",
        THEN conjunct1]
    by (simp add: sample_collaborators truthy_def)
  have b: "semverBump sample_env ''1.2.3'' (PresetString ''angular'') ''libs/lib'' ''lib-''
       (Some ''prerelease'') (Some ''beta'') None = Inr (Some ''1.3.0-beta.0'')"
    using semverBump_prerelease_chain [of sample_env "''libs/lib''" "''lib-''" None
        "PresetString ''angular''" None "''1.2.3''" "Some ''prerelease''" "Some ''beta''"
        "''minor''" "\<lparr> major = 1, minor = 2, patch = 3, prerelease = [] \<rparr>",
        THEN conjunct2, THEN conjunct1]
    by (simp add: sample_collaborators sample_parsed sample_inc_def)
  have c: "semverBump sample_env ''1.3.0-beta.0'' (PresetString ''angular'') ''libs/lib'' ''lib-''
       (Some ''prerelease'') (Some ''beta'') None = Inr (Some ''1.3.0-beta.1'')"
    using semverBump_prerelease_chain [of sample_env "''libs/lib''" "''lib-''" None
        "PresetString ''angular''" None "''1.3.0-beta.0''" "Some ''prerelease''" "Some ''beta''"
        "''minor''"
        "\<lparr> major = 1, minor = 3, patch = 0, prerelease = [Alphanumeric ''beta'', Numeric 0] \<rparr>",
        THEN conjunct2, THEN conjunct2]
    by (simp add: sample_collaborators sample_parsed sample_inc_def)
  from a b c show ?thesis by simp
qed

text \<open>
  C7. \<^verbatim>\<open>getProjectVersion\<close>: when the lookup of the last tag fails, the last version is
  \<^verbatim>\<open>0.0.0\<close>, not an error, and one warning is logged. The range reference is the first
  commit reference when the last version is \<^verbatim>\<open>0.0.0\<close> and the formatted tag of the last
  version otherwise. With \<^verbatim>\<open>since\<close> given, the range reference returned is the one
  returned without it, and the commits are fetched since \<^verbatim>\<open>since\<close> instead of since
  that reference.
\<close>

theorem getProjectVersion_window:
  "(getLastVersion env tp pid rt = Inl e \<longrightarrow>
      lastVersion_S (getProjectVersion env tp root rt since pn pid) = Inr ''0.0.0''
      \<and> logged (getProjectVersion env tp root rt since pn pid)
          = [LogStep ''warning'' ''warn'' (warning_message tp) pn])
   \<and> (\<exists>lv. lastVersion_S (getProjectVersion env tp root rt since pn pid) = Inr lv
        \<and> lastVersionGitRef_S (getProjectVersion env tp root rt since pn pid)
            = (if lv = ''0.0.0'' then getFirstCommitRef env else Inr (formatTag env tp lv)))
   \<and> lastVersionGitRef_S (getProjectVersion env tp root rt (Some s) pn pid)
       = lastVersionGitRef_S (getProjectVersion env tp root rt None pn pid)
   \<and> commits_S (getProjectVersion env tp root rt (Some s) pn pid)
       = switchMap (lastVersionGitRef_S (getProjectVersion env tp root rt None pn pid))
           (\<lambda>_. getCommits env root s)
   \<and> commits_S (getProjectVersion env tp root rt None pn pid)
       = switchMap (lastVersionGitRef_S (getProjectVersion env tp root rt None pn pid))
           (\<lambda>lastVersionGitRef. getCommits env root lastVersionGitRef)"
  by (cases "getLastVersion env tp pid rt")
     (simp_all add: getProjectVersion_def Let_def catchError_simps switchMap_simps
        isInitialVersion_def initialVersion_def)

theorem getProjectVersion_window_witness:
  "getLastVersion sample_env ''lib-'' None None = Inl (CollaboratorError ''No semver tag found'')
   \<and> lastVersion_S (getProjectVersion sample_env ''lib-'' ''libs/lib'' None None ''lib'' None)
       = Inr ''0.0.0''
   \<and> logged (getProjectVersion sample_env ''lib-'' ''libs/lib'' None None ''lib'' None)
       = [LogStep ''warning'' ''warn'' (warning_message ''lib-'') ''lib'']"
proof -
  have failed: "getLastVersion sample_env ''lib-'' None None
      = Inl (CollaboratorError ''No semver tag found'')"
    by (simp add: sample_collaborators)
  from getProjectVersion_window [of sample_env "''lib-''" None None
      "CollaboratorError ''No semver tag found''" "''libs/lib''" None "''lib''",
      THEN conjunct1, rule_format, OF failed] failed
  show ?thesis by simp
qed

lemma dependencyVersion_resolved:
  assumes "(case getLastVersion env (formatTagPrefix env vtp (name r) sync) pid rt of
              Inl _ \<Rightarrow> ''0.0.0'' | Inr v \<Rightarrow> v) = ''0.0.0''
           \<longrightarrow> getFirstCommitRef env = Inr x"
    and "getCommits env (path r) anchor = Inr cs"
  shows "commits_S (dependencyWindow env rt vtp sync anchor pn pid r) = Inr cs"
    and "dependencyVersion env cpo ps rt vtp sync anchor skip pn pid su r =
      (if filteredCommits env cs cpo skip = []
       then Inr \<lparr> v_type = ''dependency'', v_version = None,
                  v_dependencyName = Some (name r) \<rparr>
       else if (case getLastVersion env (formatTagPrefix env vtp (name r) sync) pid rt of
                  Inl _ \<Rightarrow> ''0.0.0'' | Inr v \<Rightarrow> v) = ''0.0.0''
       then map_op
              (semverBump env ''0.0.0'' ps (path r) (formatTagPrefix env vtp (name r) sync)
                 None None su)
              (\<lambda>v. \<lparr> v_type = ''dependency'', v_version = v,
                      v_dependencyName = Some (name r) \<rparr>)
       else Inr \<lparr> v_type = ''dependency'',
                  v_version = Some (case getLastVersion env (formatTagPrefix env vtp (name r) sync)
                                           pid rt of
                                      Inl _ \<Rightarrow> ''0.0.0'' | Inr v \<Rightarrow> v),
                  v_dependencyName = Some (name r) \<rparr>)"
proof -
  let ?w = "dependencyWindow env rt vtp sync anchor pn pid r"
  have lv: "lastVersion_S ?w
      = Inr (case getLastVersion env (formatTagPrefix env vtp (name r) sync) pid rt of
               Inl _ \<Rightarrow> ''0.0.0'' | Inr v \<Rightarrow> v)"
    by (simp add: dependencyWindow_def lastVersion_resolved initialVersion_def
          split: sum.splits)
  have "commits_S ?w = switchMap (lastVersionGitRef_S ?w) (\<lambda>_. getCommits env (path r) anchor)"
    by (simp add: dependencyWindow_def getProjectVersion_def Let_def)
  moreover have "\<exists>y. lastVersionGitRef_S ?w = Inr y"
    using assms(1)
    by (auto simp: dependencyWindow_def getProjectVersion_def Let_def catchError_def
          switchMap_simps isInitialVersion_def initialVersion_def split: sum.splits)
  ultimately show cs: "commits_S ?w = Inr cs"
    using assms(2) by (auto simp: switchMap_simps)
  show "dependencyVersion env cpo ps rt vtp sync anchor skip pn pid su r =
      (if filteredCommits env cs cpo skip = []
       then Inr \<lparr> v_type = ''dependency'', v_version = None,
                  v_dependencyName = Some (name r) \<rparr>
       else if (case getLastVersion env (formatTagPrefix env vtp (name r) sync) pid rt of
                  Inl _ \<Rightarrow> ''0.0.0'' | Inr v \<Rightarrow> v) = ''0.0.0''
       then map_op
              (semverBump env ''0.0.0'' ps (path r) (formatTagPrefix env vtp (name r) sync)
                 None None su)
              (\<lambda>v. \<lparr> v_type = ''dependency'', v_version = v,
                      v_dependencyName = Some (name r) \<rparr>)
       else Inr \<lparr> v_type = ''dependency'',
                  v_version = Some (case getLastVersion env (formatTagPrefix env vtp (name r) sync)
                                           pid rt of
                                      Inl _ \<Rightarrow> ''0.0.0'' | Inr v \<Rightarrow> v),
                  v_dependencyName = Some (name r) \<rparr>)"
    by (simp add: dependencyVersion_def Let_def lv cs forkJoin2_Inr switchMap_simps
          isInitialVersion_def initialVersion_def)
qed

lemma getDependencyVersions_Inr_iff:
  "getDependencyVersions env cpo ps roots rt vtp sync anchor skip pn pid su = Inr vs \<longleftrightarrow>
     length vs = length roots
     \<and> (\<forall>i < length roots.
           dependencyVersion env cpo ps rt vtp sync anchor skip pn pid su (roots ! i)
             = Inr (vs ! i))"
proof -
  have "getDependencyVersions env cpo ps roots rt vtp sync anchor skip pn pid su = Inr vs \<longleftrightarrow>
      map (dependencyVersion env cpo ps rt vtp sync anchor skip pn pid su) roots = map Inr vs"
    by (cases roots) (auto simp: getDependencyVersions_def forkJoin_defaultIfEmpty_def
          forkJoin_Inr_iff simp del: forkJoin.simps)
  then show ?thesis
    by (auto simp: list_eq_iff_nth_eq)
qed

lemma filteredCommits_empty_iff:
  "filteredCommits env cs cpo skip = [] \<longleftrightarrow>
     (\<forall>c \<in> set cs. \<exists>t \<in> set skip.
        parseConventionalCommitsSync env c
          (case cpo of Some options \<Rightarrow> options | None \<Rightarrow> []) = Some t)"
proof -
  have "\<not> shouldCommitBeCalculated env c cpo skip \<longleftrightarrow>
      (\<exists>t \<in> set skip.
         parseConventionalCommitsSync env c
           (case cpo of Some options \<Rightarrow> options | None \<Rightarrow> []) = Some t)" for c
    by (simp add: shouldCommitBeCalculated_def Let_def list_ex_iff eq_commute)
  then show ?thesis
    by (simp add: filteredCommits_def filter_empty_conv)
qed

text \<open>
  C8. \<^verbatim>\<open>_getDependencyVersions\<close>: no dependency root gives the empty array. Otherwise
  it returns one entry for each root, in the order of the roots, each the outcome for its
  root, and fails when the outcome for a root is an error. For one root, when the
  commits of its path since the range reference \<open>anchor\<close> of the primary project are
  fetched (and the first commit reference is found, for a dependency without a tag): if
  the parsed type of every such commit is one of \<^verbatim>\<open>skipCommitTypes\<close>, the version is
  \<^verbatim>\<open>null\<close>; otherwise a last version \<^verbatim>\<open>0.0.0\<close> gives the automatic bump of
  \<^verbatim>\<open>0.0.0\<close> for the dependency's path and tag prefix, and any other last version is
  the version given.
\<close>

theorem getDependencyVersions_cases:
  "getDependencyVersions env cpo ps [] rt vtp sync anchor skip pn pid su = Inr []
   \<and> (getDependencyVersions env cpo ps roots rt vtp sync anchor skip pn pid su = Inr vs \<longleftrightarrow>
        length vs = length roots
        \<and> (\<forall>i < length roots.
              dependencyVersion env cpo ps rt vtp sync anchor skip pn pid su (roots ! i)
                = Inr (vs ! i)))
   \<and> (((case getLastVersion env (formatTagPrefix env vtp (name r) sync) pid rt of
           Inl _ \<Rightarrow> ''0.0.0'' | Inr v \<Rightarrow> v) = ''0.0.0''
        \<longrightarrow> getFirstCommitRef env = Inr x)
       \<and> getCommits env (path r) anchor = Inr cs
      \<longrightarrow> commits_S (dependencyWindow env rt vtp sync anchor pn pid r) = Inr cs
          \<and> dependencyVersion env cpo ps rt vtp sync anchor skip pn pid su r =
              (if (\<forall>c \<in> set cs. \<exists>t \<in> set skip.
                     parseConventionalCommitsSync env c
                       (case cpo of Some options \<Rightarrow> options | None \<Rightarrow> []) = Some t)
               then Inr \<lparr> v_type = ''dependency'', v_version = None,
                          v_dependencyName = Some (name r) \<rparr>
               else if (case getLastVersion env (formatTagPrefix env vtp (name r) sync) pid rt of
                          Inl _ \<Rightarrow> ''0.0.0'' | Inr v \<Rightarrow> v) = ''0.0.0''
               then map_op
                      (semverBump env ''0.0.0'' ps (path r)
                         (formatTagPrefix env vtp (name r) sync) None None su)
                      (\<lambda>v. \<lparr> v_type = ''dependency'', v_version = v,
                              v_dependencyName = Some (name r) \<rparr>)
               else Inr \<lparr> v_type = ''dependency'',
                          v_version =
                            Some (case getLastVersion env
                                         (formatTagPrefix env vtp (name r) sync) pid rt of
                                    Inl _ \<Rightarrow> ''0.0.0'' | Inr v \<Rightarrow> v),
                          v_dependencyName = Some (name r) \<rparr>))"
proof (intro conjI impI)
  show "getDependencyVersions env cpo ps [] rt vtp sync anchor skip pn pid su = Inr []"
    by (simp add: getDependencyVersions_def forkJoin_defaultIfEmpty_def)
next
  show "getDependencyVersions env cpo ps roots rt vtp sync anchor skip pn pid su = Inr vs \<longleftrightarrow>
        length vs = length roots
        \<and> (\<forall>i < length roots.
              dependencyVersion env cpo ps rt vtp sync anchor skip pn pid su (roots ! i)
                = Inr (vs ! i))"
    by (rule getDependencyVersions_Inr_iff)
next
  assume h: "((case getLastVersion env (formatTagPrefix env vtp (name r) sync) pid rt of
           Inl _ \<Rightarrow> ''0.0.0'' | Inr v \<Rightarrow> v) = ''0.0.0''
        \<longrightarrow> getFirstCommitRef env = Inr x)
       \<and> getCommits env (path r) anchor = Inr cs"
  then show "commits_S (dependencyWindow env rt vtp sync anchor pn pid r) = Inr cs"
    by (intro dependencyVersion_resolved(1) [where x = x]) simp_all
next
  assume h: "((case getLastVersion env (formatTagPrefix env vtp (name r) sync) pid rt of
           Inl _ \<Rightarrow> ''0.0.0'' | Inr v \<Rightarrow> v) = ''0.0.0''
        \<longrightarrow> getFirstCommitRef env = Inr x)
       \<and> getCommits env (path r) anchor = Inr cs"
  then have first: "(case getLastVersion env (formatTagPrefix env vtp (name r) sync) pid rt of
           Inl _ \<Rightarrow> ''0.0.0'' | Inr v \<Rightarrow> v) = ''0.0.0''
        \<longrightarrow> getFirstCommitRef env = Inr x"
    and fetched: "getCommits env (path r) anchor = Inr cs"
    by simp_all
  show "dependencyVersion env cpo ps rt vtp sync anchor skip pn pid su r =
              (if (\<forall>c \<in> set cs. \<exists>t \<in> set skip.
                     parseConventionalCommitsSync env c
                       (case cpo of Some options \<Rightarrow> options | None \<Rightarrow> []) = Some t)
               then Inr \<lparr> v_type = ''dependency'', v_version = None,
                          v_dependencyName = Some (name r) \<rparr>
               else if (case getLastVersion env (formatTagPrefix env vtp (name r) sync) pid rt of
                          Inl _ \<Rightarrow> ''0.0.0'' | Inr v \<Rightarrow> v) = ''0.0.0''
               then map_op
                      (semverBump env ''0.0.0'' ps (path r)
                         (formatTagPrefix env vtp (name r) sync) None None su)
                      (\<lambda>v. \<lparr> v_type = ''dependency'', v_version = v,
                              v_dependencyName = Some (name r) \<rparr>)
               else Inr \<lparr> v_type = ''dependency'',
                          v_version =
                            Some (case getLastVersion env
                                         (formatTagPrefix env vtp (name r) sync) pid rt of
                                    Inl _ \<Rightarrow> ''0.0.0'' | Inr v \<Rightarrow> v),
                          v_dependencyName = Some (name r) \<rparr>)"
    unfolding dependencyVersion_resolved(2) [OF first fetched]
      filteredCommits_empty_iff [of env cs cpo skip]
    by (rule refl)
qed

theorem getDependencyVersions_cases_witness:
  "getDependencyVersions sample_env None (PresetString ''angular'')
     [core_root, lib_root, docs_root] None None False ''app-1.2.3'' [''chore''] ''app'' None None
     = Inr [\<lparr> v_type = ''dependency'', v_version = Some ''2.1.0'',
              v_dependencyName = Some ''core'' \<rparr>,
            \<lparr> v_type = ''dependency'', v_version = Some ''0.1.0'',
              v_dependencyName = Some ''lib'' \<rparr>,
            \<lparr> v_type = ''dependency'', v_version = None,
              v_dependencyName = Some ''docs'' \<rparr>]"
proof -
  let ?one = "dependencyVersion sample_env None (PresetString ''angular'') None None False
      ''app-1.2.3'' [''chore''] ''app'' None None"
  have core: "?one core_root
      = Inr \<lparr> v_type = ''dependency'', v_version = Some ''2.1.0'',
              v_dependencyName = Some ''core'' \<rparr>"
    using getDependencyVersions_cases [where env = sample_env and r = core_root
        and anchor = "''app-1.2.3''" and cs = "[''fix: bug'']" and x = "''4b825dc''"
        and cpo = None and skip = "[''chore'']" and rt = None and pid = None and vtp = None
        and sync = False and ps = "PresetString ''angular''" and pn = "''app''" and su = None,
        THEN conjunct2, THEN conjunct2]
    by (simp add: sample_collaborators core_root_def)
  have lib: "?one lib_root
      = Inr \<lparr> v_type = ''dependency'', v_version = Some ''0.1.0'',
              v_dependencyName = Some ''lib'' \<rparr>"
    using getDependencyVersions_cases [where env = sample_env and r = lib_root
        and anchor = "''app-1.2.3''" and cs = "[''feat: add'']" and x = "''4b825dc''"
        and cpo = None and skip = "[''chore'']" and rt = None and pid = None and vtp = None
        and sync = False and ps = "PresetString ''angular''" and pn = "''app''" and su = None,
        THEN conjunct2, THEN conjunct2]
    by (simp add: sample_collaborators lib_root_def semverBump_def switchMap_simps map_op_simps
          truthy_def sample_inc_def)
  have docs: "?one docs_root
      = Inr \<lparr> v_type = ''dependency'', v_version = None,
              v_dependencyName = Some ''docs'' \<rparr>"
    using getDependencyVersions_cases [where env = sample_env and r = docs_root
        and anchor = "''app-1.2.3''" and cs = "[''chore: typo'']" and x = "''4b825dc''"
        and cpo = None and skip = "[''chore'']" and rt = None and pid = None and vtp = None
        and sync = False and ps = "PresetString ''angular''" and pn = "''app''" and su = None,
        THEN conjunct2, THEN conjunct2]
    by (simp add: sample_collaborators docs_root_def)
  have each: "\<forall>i < length [core_root, lib_root, docs_root].
      ?one ([core_root, lib_root, docs_root] ! i)
        = Inr ([\<lparr> v_type = ''dependency'', v_version = Some ''2.1.0'',
                   v_dependencyName = Some ''core'' \<rparr>,
                 \<lparr> v_type = ''dependency'', v_version = Some ''0.1.0'',
                   v_dependencyName = Some ''lib'' \<rparr>,
                 \<lparr> v_type = ''dependency'', v_version = None,
                   v_dependencyName = Some ''docs'' \<rparr>] ! i)"
    using core lib docs by (simp add: less_Suc_eq)
  show ?thesis
    using getDependencyVersions_cases [where env = sample_env
        and roots = "[core_root, lib_root, docs_root]" and anchor = "''app-1.2.3''"
        and cpo = None and skip = "[''chore'']" and rt = None and pid = None and vtp = None
        and sync = False and ps = "PresetString ''angular''" and pn = "''app''" and su = None
        and vs = "[\<lparr> v_type = ''dependency'', v_version = Some ''2.1.0'',
                     v_dependencyName = Some ''core'' \<rparr>,
                   \<lparr> v_type = ''dependency'', v_version = Some ''0.1.0'',
                     v_dependencyName = Some ''lib'' \<rparr>,
                   \<lparr> v_type = ''dependency'', v_version = None,
                     v_dependencyName = Some ''docs'' \<rparr>]",
        THEN conjunct2, THEN conjunct1] each
    by simp
qed

text \<open>
  C10. In the dependency versions \<open>tryBump\<close> asks for, the entry of a dependency whose
  last version is \<^verbatim>\<open>0.0.0\<close> and which has a commit that counts is computed without the
  release type, the prerelease identifier and the \<^verbatim>\<open>skipUnstable\<close> flag of the caller,
  whatever they are: the recommendation is asked with \<^verbatim>\<open>skipUnstable\<close> false, and the
  version is \<^verbatim>\<open>semver.inc('0.0.0', category)\<close> for the recommended category itself,
  without an identifier.
\<close>

theorem dependency_bump_ignores_release_options:
  assumes "dependencyVersions env opts anchor = Inr vs"
    and "dependencyRoots opts = Some roots"
    and "i < length roots"
    and "lastVersion_S (dependencyWindow env (releaseType opts) (versionTagPrefix opts)
           (syncVersions opts) anchor (projectName opts) (preid opts) (roots ! i)) = Inr ''0.0.0''"
    and "commits_S (dependencyWindow env (releaseType opts) (versionTagPrefix opts)
           (syncVersions opts) anchor (projectName opts) (preid opts) (roots ! i)) = Inr cs"
    and "filteredCommits env cs (commitParserOptions opts) (skipCommitTypes opts) \<noteq> []"
  shows "\<exists>recommended.
           conventionalRecommendedBump env (path (roots ! i))
             (formatTagPrefix env (versionTagPrefix opts) (name (roots ! i)) (syncVersions opts))
             False (preset_name (preset opts)) (preset_config (preset opts)) = Inr recommended
           \<and> v_version (vs ! i) =
               (case recommended of
                  None \<Rightarrow> None
                | Some category \<Rightarrow>
                    if category \<noteq> [] then semver_inc env ''0.0.0'' category None else None)"
proof -
  let ?tp = "formatTagPrefix env (versionTagPrefix opts) (name (roots ! i)) (syncVersions opts)"
  from assms(1-3) have "dependencyVersion env (commitParserOptions opts) (preset opts)
      (releaseType opts) (versionTagPrefix opts) (syncVersions opts) anchor
      (skipCommitTypes opts) (projectName opts) (preid opts) None (roots ! i) = Inr (vs ! i)"
    by (simp add: dependencyVersions_def getDependencyVersions_Inr_iff)
  with assms(4-6) have "map_op
      (semverBump env ''0.0.0'' (preset opts) (path (roots ! i)) ?tp None None None)
      (\<lambda>v. \<lparr> v_type = ''dependency'', v_version = v,
              v_dependencyName = Some (name (roots ! i)) \<rparr>) = Inr (vs ! i)"
    by (simp add: dependencyVersion_def Let_def forkJoin2_Inr switchMap_simps
          isInitialVersion_def initialVersion_def)
  then obtain v where v: "semverBump env ''0.0.0'' (preset opts) (path (roots ! i)) ?tp
      None None None = Inr v" "v_version (vs ! i) = v"
    by (auto simp: map_op_Inr_iff)
  from v(1) obtain recommended where r: "conventionalRecommendedBump env (path (roots ! i)) ?tp
      False (preset_name (preset opts)) (preset_config (preset opts)) = Inr recommended"
    "v = (case recommended of
            None \<Rightarrow> None
          | Some category \<Rightarrow>
              if category \<noteq> [] then semver_inc env ''0.0.0'' category None else None)"
    by (auto simp: semverBump_def switchMap_Inr_iff truthy_def Let_def split: option.splits)
  with v(2) show ?thesis by blast
qed

theorem dependency_bump_ignores_release_options_witness:
  "v_version
     ([\<lparr> v_type = ''dependency'', v_version = Some ''2.1.0'',
         v_dependencyName = Some ''core'' \<rparr>,
       \<lparr> v_type = ''dependency'', v_version = Some ''0.1.0'',
         v_dependencyName = Some ''lib'' \<rparr>] ! 1)
     = semver_inc sample_env ''0.0.0'' ''minor'' None"
proof -
  let ?o = "sample_options\<lparr> dependencyRoots := Some [core_root, lib_root],
      releaseType := Some ''prerelease'', preid := Some ''beta'', skipUnstable := Some True \<rparr>"
  have o: "dependencyRoots ?o = Some [core_root, lib_root]" "commitParserOptions ?o = None"
    "skipCommitTypes ?o = [''chore'']" "releaseType ?o = Some ''prerelease''"
    "preid ?o = Some ''beta''" "versionTagPrefix ?o = None" "syncVersions ?o = False"
    "projectName ?o = ''app''" "preset ?o = PresetString ''angular''"
    by (simp_all add: sample_options_def)
  have i: "(1::nat) < length [core_root, lib_root]"
    by simp
  have untagged: "lastVersion_S (dependencyWindow sample_env (releaseType ?o)
      (versionTagPrefix ?o) (syncVersions ?o) ''app-1.2.3'' (projectName ?o) (preid ?o)
      ([core_root, lib_root] ! 1)) = Inr ''0.0.0''"
    by (simp add: o dependencyWindow_def lastVersion_resolved lib_root_def
          sample_collaborators initialVersion_def)
  have commits: "commits_S (dependencyWindow sample_env (releaseType ?o)
      (versionTagPrefix ?o) (syncVersions ?o) ''app-1.2.3'' (projectName ?o) (preid ?o)
      ([core_root, lib_root] ! 1)) = Inr [''feat: add'']"
    by (simp add: o dependencyWindow_def getProjectVersion_def Let_def lib_root_def
          sample_collaborators catchError_simps switchMap_simps isInitialVersion_def
          initialVersion_def)
  have counts: "filteredCommits sample_env [''feat: add''] (commitParserOptions ?o)
      (skipCommitTypes ?o) \<noteq> []"
    by (simp add: o filteredCommits_def sample_classifier)
  show ?thesis
    using dependency_bump_ignores_release_options
      [OF sample_dependencies [OF o(1-3)] o(1) i untagged commits counts]
    by (simp add: o lib_root_def sample_collaborators preset_name_def preset_config_def)
qed

end
